theory Spec2Isabelle
  imports Main
begin

section \<open>URI helpers of ckanext.dcat.utils\<close>

subsection \<open>Python values used by the module\<close>

text \<open>
  A value that is either a Python string or \<open>None\<close> is a \<open>string option\<close>.
  A dict whose values are strings is an association list; \<open>d.get(k)\<close> is
  \<open>dict_get\<close> (\<open>None\<close> for a missing key) and \<open>d[k]\<close> is \<open>getitem\<close>, which
  raises \<open>KeyError\<close> for a missing key.
\<close>

type_synonym str_dict = "(string \<times> string) list"

datatype error = KeyError string

definition dict_get :: "str_dict \<Rightarrow> string \<Rightarrow> string option" where
  "dict_get d k = map_of d k"

definition getitem :: "str_dict \<Rightarrow> string \<Rightarrow> error + string" where
  "getitem d k = (case map_of d k of None \<Rightarrow> Inl (KeyError k) | Some v \<Rightarrow> Inr v)"

text \<open>\<open>not v\<close> for a value that is a string or \<open>None\<close>.\<close>

fun falsy :: "string option \<Rightarrow> bool" where
  "falsy None = True"
| "falsy (Some v) = (v = [])"

text \<open>\<open>str(v)\<close>, as \<open>str.format\<close> renders an argument.\<close>

fun py_str :: "string option \<Rightarrow> string" where
  "py_str None = ''None''"
| "py_str (Some v) = v"

text \<open>\<open>s.rstrip(c)\<close> and \<open>s.replace(c, '')\<close> for a single character \<open>c\<close>.\<close>

definition rstrip :: "char \<Rightarrow> string \<Rightarrow> string" where
  "rstrip c s = rev (dropWhile (\<lambda>x. x = c) (rev s))"

definition remove_char :: "char \<Rightarrow> string \<Rightarrow> string" where
  "remove_char c s = filter (\<lambda>x. x \<noteq> c) s"

subsection \<open>Format-name translators\<close>

definition CONTENT_TYPES :: str_dict where
  "CONTENT_TYPES =
     [(''rdf'', ''application/rdf+xml''),
      (''xml'', ''application/rdf+xml''),
      (''n3'', ''text/n3''),
      (''ttl'', ''text/turtle''),
      (''jsonld'', ''application/ld+json'')]"

definition url_to_rdflib_format :: "string \<Rightarrow> string" where
  "url_to_rdflib_format f =
     (if f = ''ttl'' then ''turtle''
      else if f \<in> set [''rdf'', ''xml''] then ''pretty-xml''
      else if f = ''jsonld'' then ''json-ld''
      else f)"

definition rdflib_to_url_format :: "string \<Rightarrow> string" where
  "rdflib_to_url_format f =
     (if f = ''turtle'' then ''ttl''
      else if f = ''pretty-xml'' then ''xml''
      else if f = ''json-ld'' then ''jsonld''
      else f)"

subsection \<open>The environment: configuration, legacy lookup, UUIDs, the log\<close>

text \<open>
  The module reads the process-wide configuration (\<open>pylons.config\<close>), looks
  persisted resources up by id (\<open>model.Resource.get\<close>), draws random UUIDs
  (\<open>uuid.uuid4\<close>) and writes to a logger. The first two are read-only and live
  in \<open>world\<close>; the \<open>n\<close>-th UUID drawn is \<open>uuid4 w n\<close>. The number of UUIDs drawn
  so far and the log lines emitted are the state threaded through every call.
\<close>

record resource_row =
  get_package_id :: "string option"

record world =
  config :: str_dict
  Resource_get :: "string \<Rightarrow> resource_row option"
  uuid4 :: "nat \<Rightarrow> string"

datatype level = CRITICAL | WARNING

record state =
  drawn :: nat
  logged :: "(level \<times> string) list"

definition uuid4_str :: "world \<Rightarrow> state \<Rightarrow> string \<times> state" where
  "uuid4_str w s = (uuid4 w (drawn s), s\<lparr>drawn := Suc (drawn s)\<rparr>)"

definition log_msg :: "level \<Rightarrow> string \<Rightarrow> state \<Rightarrow> state" where
  "log_msg l m s = s\<lparr>logged := logged s @ [(l, m)]\<rparr>"

subsection \<open>Catalog URI\<close>

text \<open>
  The body of the second \<open>if not uri:\<close> of \<open>catalog_uri\<close>: the application
  id without brackets, or else a random id, each with a critical log line.
\<close>

definition catalog_uri_fallback :: "world \<Rightarrow> state \<Rightarrow> string \<times> state" where
  "catalog_uri_fallback w s =
     (let app_uuid = dict_get (config w) ''app_instance_uuid'';
          random_id =
            (case uuid4_str w s of (u, s') \<Rightarrow>
               (''http://'' @ u,
                log_msg CRITICAL
                  (''Using a random id as catalog URI, you should set '' @
                   ''the `ckanext.dcat.base_uri` or `ckan.site_url` '' @
                   ''option'') s'))
      in case app_uuid of
           None \<Rightarrow> random_id
         | Some a \<Rightarrow>
             if a \<noteq> [] then
               (''http://'' @ remove_char CHR ''}'' (remove_char CHR ''{'' a),
                log_msg CRITICAL
                  (''Using app id as catalog URI, you should set the '' @
                   ''`ckanext.dcat.base_uri` or `ckan.site_url` option'') s)
             else random_id)"

definition catalog_uri :: "world \<Rightarrow> state \<Rightarrow> string \<times> state" where
  "catalog_uri w s =
     (let uri = dict_get (config w) ''ckanext.dcat.base_uri'';
          uri = (if falsy uri then dict_get (config w) ''ckan.site_url'' else uri)
      in case uri of
           None \<Rightarrow> catalog_uri_fallback w s
         | Some u \<Rightarrow> if u = [] then catalog_uri_fallback w s else (u, s))"

subsection \<open>Dataset records\<close>

text \<open>
  A dataset dict has string-valued fields (\<open>uri\<close>, \<open>id\<close>, \<open>publisher_uri\<close>, ...),
  an optional \<open>extras\<close> list of dicts and an optional nested \<open>organization\<close> dict;
  \<open>None\<close> is a missing key.
\<close>

record dataset_dict =
  str_fields :: str_dict
  extras :: "str_dict list option"
  organization :: "str_dict option"

text \<open>
  The loop \<open>for extra in extras: if extra['key'] == k: uri = extra['value']; break\<close>,
  started with the current value of \<open>uri\<close>.
\<close>

fun extras_loop :: "string \<Rightarrow> str_dict list \<Rightarrow> string option \<Rightarrow> error + string option" where
  "extras_loop k [] uri = Inr uri"
| "extras_loop k (extra # rest) uri =
     (case getitem extra ''key'' of
        Inl e \<Rightarrow> Inl e
      | Inr key \<Rightarrow>
          if key = k then
            (case getitem extra ''value'' of
               Inl e \<Rightarrow> Inl e
             | Inr v \<Rightarrow> Inr (Some v))
          else extras_loop k rest uri)"

definition get_extras :: "dataset_dict \<Rightarrow> str_dict list" where
  "get_extras d = (case extras d of None \<Rightarrow> [] | Some es \<Rightarrow> es)"

definition dataset_uri :: "world \<Rightarrow> dataset_dict \<Rightarrow> state \<Rightarrow> (error + string option) \<times> state" where
  "dataset_uri w d s =
     (let uri = dict_get (str_fields d) ''uri''
      in case (if falsy uri then extras_loop ''uri'' (get_extras d) uri else Inr uri) of
           Inl e \<Rightarrow> (Inl e, s)
         | Inr uri \<Rightarrow>
             (case (if falsy uri \<and> \<not> falsy (dict_get (str_fields d) ''id'') then
                      (case catalog_uri w s of (c, s1) \<Rightarrow>
                         (case getitem (str_fields d) ''id'' of
                            Inl e \<Rightarrow> (Inl e, s1)
                          | Inr i \<Rightarrow> (Inr (Some (rstrip CHR ''/'' c @ ''/dataset/'' @ i)), s1)))
                    else (Inr uri, s)) of
                (Inl e, s2) \<Rightarrow> (Inl e, s2)
              | (Inr uri, s2) \<Rightarrow>
                  if falsy uri then
                    (case catalog_uri w s2 of (c, s3) \<Rightarrow>
                       (case uuid4_str w s3 of (u, s4) \<Rightarrow>
                          (Inr (Some (rstrip CHR ''/'' c @ ''/dataset/'' @ u)),
                           log_msg WARNING ''Using a random id for dataset URI'' s4)))
                  else (Inr uri, s2)))"

subsection \<open>Resource records\<close>

definition dataset_id_from_resource :: "world \<Rightarrow> str_dict \<Rightarrow> error + string option" where
  "dataset_id_from_resource w r =
     (let dataset_id = dict_get r ''package_id''
      in if \<not> falsy dataset_id then Inr dataset_id
         else
           (case getitem r ''id'' of
              Inl e \<Rightarrow> Inl e
            | Inr i \<Rightarrow>
                (case Resource_get w i of
                   Some resource \<Rightarrow> Inr (get_package_id resource)
                 | None \<Rightarrow> Inr None)))"

definition resource_uri :: "world \<Rightarrow> str_dict \<Rightarrow> state \<Rightarrow> (error + string option) \<times> state" where
  "resource_uri w r s =
     (let uri = dict_get r ''uri''
      in if falsy uri then
           (case dataset_id_from_resource w r of
              Inl e \<Rightarrow> (Inl e, s)
            | Inr dataset_id \<Rightarrow>
                (case catalog_uri w s of (c, s1) \<Rightarrow>
                   (case getitem r ''id'' of
                      Inl e \<Rightarrow> (Inl e, s1)
                    | Inr i \<Rightarrow>
                        (Inr (Some (rstrip CHR ''/'' c @ ''/dataset/'' @ py_str dataset_id
                                    @ ''/resource/'' @ i)), s1))))
         else (Inr uri, s))"

subsection \<open>Publisher URI\<close>

definition publisher_uri_from_dataset_dict ::
    "world \<Rightarrow> dataset_dict \<Rightarrow> state \<Rightarrow> (error + string option) \<times> state" where
  "publisher_uri_from_dataset_dict w d s =
     (let uri = dict_get (str_fields d) ''pubisher_uri''
      in case (if falsy uri then extras_loop ''publisher_uri'' (get_extras d) uri
               else Inr uri) of
           Inl e \<Rightarrow> (Inl e, s)
         | Inr uri \<Rightarrow>
             (case organization d of
                Some org \<Rightarrow>
                  if falsy uri \<and> org \<noteq> [] then
                    (case catalog_uri w s of (c, s1) \<Rightarrow>
                       (case getitem org ''id'' of
                          Inl e \<Rightarrow> (Inl e, s1)
                        | Inr i \<Rightarrow>
                            (Inr (Some (rstrip CHR ''/'' c @ ''/organization/'' @ i)), s1)))
                  else (Inr uri, s)
              | None \<Rightarrow> (Inr uri, s)))"

subsection \<open>The data model's reading of a dataset record\<close>

text \<open>
  The value of the first \<open>extras\<close> entry whose \<open>key\<close> equals \<open>k\<close>, if there is
  such an entry.
\<close>

definition first_extra_value :: "string \<Rightarrow> dataset_dict \<Rightarrow> string option" where
  "first_extra_value k d =
     (case find (\<lambda>e. dict_get e ''key'' = Some k) (get_extras d) of
        None \<Rightarrow> None
      | Some e \<Rightarrow> dict_get e ''value'')"

text \<open>
  A dataset record of the data model: every \<open>extras\<close> entry is a key/value pair
  (it has a \<open>key\<close> and a \<open>value\<close>), and a nested \<open>organization\<close> record has an
  \<open>id\<close>.
\<close>

definition dataset_record :: "dataset_dict \<Rightarrow> bool" where
  "dataset_record d =
     (list_all (\<lambda>e. dict_get e ''key'' \<noteq> None \<and> dict_get e ''value'' \<noteq> None) (get_extras d)
      \<and> (case organization d of None \<Rightarrow> True | Some org \<Rightarrow> dict_get org ''id'' \<noteq> None))"

subsection \<open>Concrete environments for the examples\<close>

definition no_resource :: "string \<Rightarrow> resource_row option" where
  "no_resource i = None"

definition sample_uuid4 :: "nat \<Rightarrow> string" where
  "sample_uuid4 n = ''6f1b2c3d-0000-4000-8000-'' @ replicate (Suc n) CHR ''a''"

definition world_of :: "str_dict \<Rightarrow> world" where
  "world_of cfg = \<lparr>config = cfg, Resource_get = no_resource, uuid4 = sample_uuid4\<rparr>"

definition state0 :: state where
  "state0 = \<lparr>drawn = 0, logged = []\<rparr>"

definition fields_only :: "str_dict \<Rightarrow> dataset_dict" where
  "fields_only fs = \<lparr>str_fields = fs, extras = None, organization = None\<rparr>"

definition extras_only :: "str_dict list \<Rightarrow> dataset_dict" where
  "extras_only es = \<lparr>str_fields = [], extras = Some es, organization = None\<rparr>"

definition org_only :: "str_dict \<Rightarrow> dataset_dict" where
  "org_only org = \<lparr>str_fields = [], extras = None, organization = Some org\<rparr>"

text \<open>
  A dataset with an id whose second extra has the key \<open>uri\<close> and an empty value,
  followed by another extra with the key \<open>uri\<close>.
\<close>

definition sample_extras :: dataset_dict where
  "sample_extras =
     \<lparr>str_fields = [(''id'', ''abc'')],
      extras = Some [[(''key'', ''theme''), (''value'', ''env'')],
                     [(''key'', ''uri''), (''value'', '''')],
                     [(''key'', ''uri''), (''value'', ''http://later/3'')]],
      organization = None\<rparr>"

section \<open>Properties\<close>

subsection \<open>Auxiliary facts\<close>

lemma falsy_iff: "falsy v \<longleftrightarrow> v = None \<or> v = Some []"
  by (cases v) auto

lemma remove_brackets:
  "remove_char CHR ''}'' (remove_char CHR ''{'' a)
     = filter (\<lambda>c. c \<noteq> CHR ''{'' \<and> c \<noteq> CHR ''}'') a"
  by (auto simp: remove_char_def intro: filter_cong)

text \<open>\<open>rstrip c\<close> removes a run of \<open>c\<close> at the end, and all of it.\<close>

lemma rstrip_decompose: "\<exists>n. s = rstrip c s @ replicate n c"
proof -
  have "rev s = takeWhile (\<lambda>x. x = c) (rev s) @ dropWhile (\<lambda>x. x = c) (rev s)"
    by simp
  moreover have "takeWhile (\<lambda>x. x = c) (rev s)
      = replicate (length (takeWhile (\<lambda>x. x = c) (rev s))) c"
    by (rule replicate_length_same [symmetric]) (auto dest: set_takeWhileD)
  ultimately have "rev s = replicate (length (takeWhile (\<lambda>x. x = c) (rev s))) c
      @ dropWhile (\<lambda>x. x = c) (rev s)"
    by simp
  then have "s = rev (dropWhile (\<lambda>x. x = c) (rev s))
      @ replicate (length (takeWhile (\<lambda>x. x = c) (rev s))) c"
    by (metis rev_append rev_replicate rev_rev_ident)
  then show ?thesis unfolding rstrip_def by blast
qed

lemma rstrip_no_trailing: "rstrip c s = [] \<or> last (rstrip c s) \<noteq> c"
proof (cases "dropWhile (\<lambda>x. x = c) (rev s)")
  case Nil
  then show ?thesis by (simp add: rstrip_def)
next
  case (Cons y ys)
  then have "y \<noteq> c" using hd_dropWhile [of "\<lambda>x. x = c" "rev s"] by auto
  with Cons show ?thesis by (simp add: rstrip_def)
qed

text \<open>
  On key/value pairs the extras loop cannot raise; it yields the value of the
  first entry with the wanted key, or leaves \<open>uri\<close> as it was.
\<close>

lemma extras_loop_pairs:
  "list_all (\<lambda>e. dict_get e ''key'' \<noteq> None \<and> dict_get e ''value'' \<noteq> None) es \<Longrightarrow>
   extras_loop k es uri =
     Inr (case find (\<lambda>e. dict_get e ''key'' = Some k) es of
            None \<Rightarrow> uri
          | Some e \<Rightarrow> dict_get e ''value'')"
  by (induction es) (auto simp: getitem_def dict_get_def split: option.splits)

lemma extras_loop_first:
  "dataset_record d \<Longrightarrow> falsy uri \<Longrightarrow>
   \<exists>v. extras_loop k (get_extras d) uri = Inr v
      \<and> (falsy v \<longleftrightarrow> falsy (first_extra_value k d))
      \<and> (\<not> falsy v \<longrightarrow> v = first_extra_value k d)"
  by (auto simp: dataset_record_def extras_loop_pairs first_extra_value_def falsy_iff
        split: option.splits)

text \<open>Entries with another key are skipped by the loop.\<close>

lemma extras_loop_prefix:
  "\<forall>x \<in> set pre. \<exists>k'. dict_get x ''key'' = Some k' \<and> k' \<noteq> k \<Longrightarrow>
   extras_loop k (pre @ rest) uri = extras_loop k rest uri"
  by (induction pre) (auto simp: getitem_def dict_get_def)

lemma extras_loop_no_match:
  "\<forall>x \<in> set es. \<exists>k'. dict_get x ''key'' = Some k' \<and> k' \<noteq> k \<Longrightarrow>
   extras_loop k es uri = Inr uri"
  using extras_loop_prefix [of es k "[]" uri] by simp

subsection \<open>Catalog URI\<close>

text \<open>
  Claim C2. \<open>catalog_uri\<close> takes no argument and has no failing branch. It returns
  the first of: the non-empty configuration value of \<open>ckanext.dcat.base_uri\<close>
  (whatever the other values are, and without touching the state); else the
  non-empty value of \<open>ckan.site_url\<close>; else \<open>http://\<close> followed by the non-empty
  value of \<open>app_instance_uuid\<close> with every \<open>{\<close> and \<open>}\<close> removed; else \<open>http://\<close>
  followed by a newly drawn UUID. The last two log one line at critical level.
\<close>

theorem catalog_uri_chain:
  "(dict_get (config w) ''ckanext.dcat.base_uri'' = Some b \<and> b \<noteq> []
      \<longrightarrow> catalog_uri w s = (b, s))
   \<and> (falsy (dict_get (config w) ''ckanext.dcat.base_uri'')
      \<and> dict_get (config w) ''ckan.site_url'' = Some u \<and> u \<noteq> []
      \<longrightarrow> catalog_uri w s = (u, s))
   \<and> (falsy (dict_get (config w) ''ckanext.dcat.base_uri'')
      \<and> falsy (dict_get (config w) ''ckan.site_url'')
      \<and> dict_get (config w) ''app_instance_uuid'' = Some a \<and> a \<noteq> []
      \<longrightarrow> fst (catalog_uri w s)
            = ''http://'' @ filter (\<lambda>c. c \<noteq> CHR ''{'' \<and> c \<noteq> CHR ''}'') a
          \<and> drawn (snd (catalog_uri w s)) = drawn s
          \<and> (\<exists>m. logged (snd (catalog_uri w s)) = logged s @ [(CRITICAL, m)]))
   \<and> (falsy (dict_get (config w) ''ckanext.dcat.base_uri'')
      \<and> falsy (dict_get (config w) ''ckan.site_url'')
      \<and> falsy (dict_get (config w) ''app_instance_uuid'')
      \<longrightarrow> fst (catalog_uri w s) = ''http://'' @ uuid4 w (drawn s)
          \<and> drawn (snd (catalog_uri w s)) = Suc (drawn s)
          \<and> (\<exists>m. logged (snd (catalog_uri w s)) = logged s @ [(CRITICAL, m)]))"
  by (auto simp: catalog_uri_def catalog_uri_fallback_def Let_def falsy_iff remove_brackets
        uuid4_str_def log_msg_def split: option.splits)

theorem catalog_uri_chain_witness:
  "catalog_uri (world_of [(''ckanext.dcat.base_uri'', ''http://cat.org''),
                          (''ckan.site_url'', ''http://example.org''),
                          (''app_instance_uuid'', ''{a1}'')]) state0
     = (''http://cat.org'', state0)
   \<and> catalog_uri (world_of [(''ckan.site_url'', ''http://example.org'')]) state0
     = (''http://example.org'', state0)
   \<and> fst (catalog_uri (world_of [(''ckanext.dcat.base_uri'', ''''),
                               (''app_instance_uuid'', ''{a1-b2}'')]) state0)
     = ''http://a1-b2''
   \<and> fst (catalog_uri (world_of []) state0) = ''http://6f1b2c3d-0000-4000-8000-a''"
  using catalog_uri_chain [where w = "world_of [(''ckanext.dcat.base_uri'', ''http://cat.org''),
                          (''ckan.site_url'', ''http://example.org''),
                          (''app_instance_uuid'', ''{a1}'')]" and b = "''http://cat.org''"
                          and s = state0]
    catalog_uri_chain [where w = "world_of [(''ckan.site_url'', ''http://example.org'')]"
                          and u = "''http://example.org''" and s = state0]
    catalog_uri_chain [where w = "world_of [(''ckanext.dcat.base_uri'', ''''),
                               (''app_instance_uuid'', ''{a1-b2}'')]"
                          and a = "''{a1-b2}''" and s = state0]
    catalog_uri_chain [where w = "world_of []" and s = state0]
  by (simp add: world_of_def dict_get_def state0_def sample_uuid4_def)

subsection \<open>Dataset URI\<close>

text \<open>
  Claim C1. For every dataset record (each \<open>extras\<close> entry a key/value pair),
  \<open>dataset_uri\<close> does not raise and returns a non-empty string, the first match of:
  the record's non-empty \<open>uri\<close> field; else the non-empty \<open>value\<close> of the first
  \<open>extras\<close> entry whose \<open>key\<close> is \<open>uri\<close>; else, for a non-empty \<open>id\<close>, the catalog
  URI without trailing slashes followed by \<open>/dataset/\<close> and the \<open>id\<close>; else the same
  prefix followed by a UUID drawn after the catalog URI was computed. With the
  catalog URI \<open>http://cat.org/\<close> and the id \<open>abc\<close> the result is
  \<open>http://cat.org/dataset/abc\<close>.
\<close>

theorem dataset_uri_chain:
  assumes "dataset_record d"
  shows "(\<not> falsy (dict_get (str_fields d) ''uri'')
            \<longrightarrow> dataset_uri w d s = (Inr (dict_get (str_fields d) ''uri''), s))
       \<and> (falsy (dict_get (str_fields d) ''uri'') \<and> \<not> falsy (first_extra_value ''uri'' d)
            \<longrightarrow> dataset_uri w d s = (Inr (first_extra_value ''uri'' d), s))
       \<and> (falsy (dict_get (str_fields d) ''uri'') \<and> falsy (first_extra_value ''uri'' d)
            \<and> dict_get (str_fields d) ''id'' = Some i \<and> i \<noteq> []
            \<longrightarrow> dataset_uri w d s =
                  (Inr (Some (rstrip CHR ''/'' (fst (catalog_uri w s)) @ ''/dataset/'' @ i)),
                   snd (catalog_uri w s)))
       \<and> (falsy (dict_get (str_fields d) ''uri'') \<and> falsy (first_extra_value ''uri'' d)
            \<and> falsy (dict_get (str_fields d) ''id'')
            \<longrightarrow> fst (dataset_uri w d s) =
                  Inr (Some (rstrip CHR ''/'' (fst (catalog_uri w s)) @ ''/dataset/''
                             @ uuid4 w (drawn (snd (catalog_uri w s))))))
       \<and> (\<exists>v. fst (dataset_uri w d s) = Inr (Some v) \<and> v \<noteq> [])"
proof -
  let ?u = "dict_get (str_fields d) ''uri''"
  let ?i = "dict_get (str_fields d) ''id''"
  have c1: "\<not> falsy ?u \<Longrightarrow> dataset_uri w d s = (Inr ?u, s)"
    by (simp add: dataset_uri_def Let_def)
  obtain v where v: "falsy ?u \<Longrightarrow> extras_loop ''uri'' (get_extras d) ?u = Inr v"
    and vf: "falsy ?u \<Longrightarrow> falsy v \<longleftrightarrow> falsy (first_extra_value ''uri'' d)"
    and ve: "falsy ?u \<Longrightarrow> \<not> falsy v \<Longrightarrow> v = first_extra_value ''uri'' d"
    using extras_loop_first [OF assms, of ?u "''uri''"] by (cases "falsy ?u") auto
  have c2: "falsy ?u \<Longrightarrow> \<not> falsy (first_extra_value ''uri'' d)
      \<Longrightarrow> dataset_uri w d s = (Inr (first_extra_value ''uri'' d), s)"
    using v vf ve by (simp add: dataset_uri_def Let_def)
  have c3: "falsy ?u \<Longrightarrow> falsy (first_extra_value ''uri'' d) \<Longrightarrow> ?i = Some i \<Longrightarrow> i \<noteq> []
      \<Longrightarrow> dataset_uri w d s =
            (Inr (Some (rstrip CHR ''/'' (fst (catalog_uri w s)) @ ''/dataset/'' @ i)),
             snd (catalog_uri w s))"
    using v vf
    by (simp add: dataset_uri_def Let_def getitem_def dict_get_def split: prod.splits)
  have c4: "falsy ?u \<Longrightarrow> falsy (first_extra_value ''uri'' d) \<Longrightarrow> falsy ?i
      \<Longrightarrow> fst (dataset_uri w d s) =
            Inr (Some (rstrip CHR ''/'' (fst (catalog_uri w s)) @ ''/dataset/''
                       @ uuid4 w (drawn (snd (catalog_uri w s)))))"
    using v vf
    by (simp add: dataset_uri_def Let_def uuid4_str_def split: prod.splits)
  have c5: "\<exists>v. fst (dataset_uri w d s) = Inr (Some v) \<and> v \<noteq> []"
  proof (cases "falsy ?u")
    case False
    then show ?thesis using c1 by (auto simp: falsy_iff)
  next
    case u: True
    show ?thesis
    proof (cases "falsy (first_extra_value ''uri'' d)")
      case False
      then show ?thesis using c2 [OF u] by (auto simp: falsy_iff)
    next
      case e: True
      show ?thesis
      proof (cases "falsy ?i")
        case True
        then show ?thesis using c4 [OF u e] by simp
      next
        case False
        then obtain j where "?i = Some j" "j \<noteq> []" by (auto simp: falsy_iff)
        then show ?thesis
          using u v vf e
          by (simp add: dataset_uri_def Let_def getitem_def dict_get_def split: prod.splits)
      qed
    qed
  qed
  from c1 c2 c3 c4 c5 show ?thesis by blast
qed

theorem dataset_uri_chain_witness:
  "dataset_record (fields_only [(''uri'', ''http://x/1'')])
   \<and> dataset_uri (world_of []) (fields_only [(''uri'', ''http://x/1'')]) state0
       = (Inr (Some ''http://x/1''), state0)
   \<and> dataset_record (extras_only [[(''key'', ''theme''), (''value'', ''env'')],
                                   [(''key'', ''uri''), (''value'', ''http://e/2'')]])
   \<and> dataset_uri (world_of [])
        (extras_only [[(''key'', ''theme''), (''value'', ''env'')],
                      [(''key'', ''uri''), (''value'', ''http://e/2'')]]) state0
       = (Inr (Some ''http://e/2''), state0)
   \<and> dataset_record (fields_only [(''id'', ''abc'')])
   \<and> dataset_uri (world_of [(''ckanext.dcat.base_uri'', ''http://cat.org/'')])
        (fields_only [(''id'', ''abc'')]) state0
       = (Inr (Some ''http://cat.org/dataset/abc''), state0)
   \<and> dataset_record (fields_only [])
   \<and> fst (dataset_uri (world_of [(''ckan.site_url'', ''http://cat.org//'')])
        (fields_only []) state0)
       = Inr (Some ''http://cat.org/dataset/6f1b2c3d-0000-4000-8000-a'')"
proof -
  have r1: "dataset_record (fields_only [(''uri'', ''http://x/1'')])"
    by (simp add: dataset_record_def fields_only_def get_extras_def)
  have r2: "dataset_record (extras_only [[(''key'', ''theme''), (''value'', ''env'')],
                                   [(''key'', ''uri''), (''value'', ''http://e/2'')]])"
    by (simp add: dataset_record_def extras_only_def get_extras_def dict_get_def)
  have r3: "dataset_record (fields_only [(''id'', ''abc'')])"
    by (simp add: dataset_record_def fields_only_def get_extras_def)
  have r4: "dataset_record (fields_only [])"
    by (simp add: dataset_record_def fields_only_def get_extras_def)
  show ?thesis
    using r1 r2 r3 r4
      dataset_uri_chain [OF r1, where w = "world_of []" and s = state0]
      dataset_uri_chain [OF r2, where w = "world_of []" and s = state0]
      dataset_uri_chain [OF r3, where i = "''abc''" and s = state0
         and w = "world_of [(''ckanext.dcat.base_uri'', ''http://cat.org/'')]"]
      dataset_uri_chain [OF r4, where s = state0
         and w = "world_of [(''ckan.site_url'', ''http://cat.org//'')]"]
    by (simp add: fields_only_def extras_only_def first_extra_value_def get_extras_def
          dict_get_def world_of_def state0_def catalog_uri_def rstrip_def sample_uuid4_def)
qed

text \<open>
  Claim C10. When the \<open>uri\<close> field is unusable and the first \<open>extras\<close> entry with
  the key \<open>uri\<close> has an empty value, the loop stops there: the empty value counts
  as no match, the result is the id-based URI (or the random one when there is no
  usable \<open>id\<close>), and whatever follows that entry in \<open>extras\<close> is ignored, so the
  call behaves as it does on the record without \<open>extras\<close>.
\<close>

theorem dataset_uri_empty_extra_value:
  assumes "falsy (dict_get (str_fields d) ''uri'')"
    and "get_extras d = pre @ e # post"
    and "\<forall>x \<in> set pre. \<exists>k. dict_get x ''key'' = Some k \<and> k \<noteq> ''uri''"
    and "dict_get e ''key'' = Some ''uri''"
    and "dict_get e ''value'' = Some []"
  shows "(dict_get (str_fields d) ''id'' = Some i \<and> i \<noteq> []
            \<longrightarrow> dataset_uri w d s =
                  (Inr (Some (rstrip CHR ''/'' (fst (catalog_uri w s)) @ ''/dataset/'' @ i)),
                   snd (catalog_uri w s)))
       \<and> (falsy (dict_get (str_fields d) ''id'')
            \<longrightarrow> fst (dataset_uri w d s) =
                  Inr (Some (rstrip CHR ''/'' (fst (catalog_uri w s)) @ ''/dataset/''
                             @ uuid4 w (drawn (snd (catalog_uri w s))))))
       \<and> dataset_uri w d s = dataset_uri w (d\<lparr>extras := None\<rparr>) s"
proof -
  have loop: "extras_loop ''uri'' (get_extras d) (dict_get (str_fields d) ''uri'') = Inr (Some [])"
    using assms(2-5) extras_loop_prefix [of pre "''uri''" "e # post"]
    by (simp add: getitem_def dict_get_def)
  have none: "get_extras (d\<lparr>extras := None\<rparr>) = []"
    by (simp add: get_extras_def)
  show ?thesis
    using assms(1) loop none
    by (auto simp: dataset_uri_def Let_def getitem_def dict_get_def uuid4_str_def falsy_iff
          split: prod.splits)
qed

theorem dataset_uri_empty_extra_value_witness:
  "falsy (dict_get (str_fields sample_extras) ''uri'')
   \<and> get_extras sample_extras
       = [[(''key'', ''theme''), (''value'', ''env'')]]
         @ [(''key'', ''uri''), (''value'', '''')]
         # [[(''key'', ''uri''), (''value'', ''http://later/3'')]]
   \<and> dataset_uri (world_of [(''ckanext.dcat.base_uri'', ''http://cat.org'')]) sample_extras state0
       = (Inr (Some ''http://cat.org/dataset/abc''), state0)"
proof -
  have h1: "falsy (dict_get (str_fields sample_extras) ''uri'')"
    by (simp add: sample_extras_def dict_get_def)
  have h2: "get_extras sample_extras
       = [[(''key'', ''theme''), (''value'', ''env'')]]
         @ [(''key'', ''uri''), (''value'', '''')]
         # [[(''key'', ''uri''), (''value'', ''http://later/3'')]]"
    by (simp add: sample_extras_def get_extras_def)
  have h3: "\<forall>x \<in> set [[(''key'', ''theme''), (''value'', ''env'')]].
              \<exists>k. dict_get x ''key'' = Some k \<and> k \<noteq> ''uri''"
    by (simp add: dict_get_def)
  have h4: "dict_get [(''key'', ''uri''), (''value'', '''')] ''key'' = Some ''uri''"
    by (simp add: dict_get_def)
  have h5: "dict_get [(''key'', ''uri''), (''value'', '''')] ''value'' = Some []"
    by (simp add: dict_get_def)
  show ?thesis
    using h1 h2
      dataset_uri_empty_extra_value [OF h1 h2 h3 h4 h5, where i = "''abc''" and s = state0
        and w = "world_of [(''ckanext.dcat.base_uri'', ''http://cat.org'')]"]
    by (simp add: sample_extras_def dict_get_def world_of_def state0_def catalog_uri_def
          rstrip_def)
qed

subsection \<open>Resource URI\<close>

text \<open>
  Claim C6. For a resource record with no usable \<open>uri\<close>, a non-empty \<open>package_id\<close>
  and an \<open>id\<close>, \<open>resource_uri\<close> returns the catalog URI without trailing slashes,
  then \<open>/dataset/\<close>, the \<open>package_id\<close>, \<open>/resource/\<close> and the \<open>id\<close>; for the record
  with id \<open>r1\<close> and package id \<open>d1\<close> under the catalog URI \<open>http://cat.org\<close> this is
  \<open>http://cat.org/dataset/d1/resource/r1\<close>.
\<close>

theorem resource_uri_with_package_id:
  "falsy (dict_get r ''uri'') \<Longrightarrow> dict_get r ''package_id'' = Some p \<Longrightarrow> p \<noteq> [] \<Longrightarrow>
   dict_get r ''id'' = Some i \<Longrightarrow>
   resource_uri w r s =
     (Inr (Some (rstrip CHR ''/'' (fst (catalog_uri w s)) @ ''/dataset/'' @ p
                 @ ''/resource/'' @ i)),
      snd (catalog_uri w s))"
  by (simp add: resource_uri_def dataset_id_from_resource_def Let_def dict_get_def getitem_def
        split: prod.splits)

theorem resource_uri_with_package_id_witness:
  "falsy (dict_get [(''id'', ''r1''), (''package_id'', ''d1'')] ''uri'')
   \<and> dict_get [(''id'', ''r1''), (''package_id'', ''d1'')] ''package_id'' = Some ''d1''
   \<and> dict_get [(''id'', ''r1''), (''package_id'', ''d1'')] ''id'' = Some ''r1''
   \<and> resource_uri (world_of [(''ckanext.dcat.base_uri'', ''http://cat.org'')])
        [(''id'', ''r1''), (''package_id'', ''d1'')] state0
       = (Inr (Some ''http://cat.org/dataset/d1/resource/r1''), state0)"
proof -
  have h1: "falsy (dict_get [(''id'', ''r1''), (''package_id'', ''d1'')] ''uri'')"
    by (simp add: dict_get_def)
  have h2: "dict_get [(''id'', ''r1''), (''package_id'', ''d1'')] ''package_id'' = Some ''d1''"
    by (simp add: dict_get_def)
  have h3: "''d1'' \<noteq> []" by simp
  have h4: "dict_get [(''id'', ''r1''), (''package_id'', ''d1'')] ''id'' = Some ''r1''"
    by (simp add: dict_get_def)
  show ?thesis
    using h1 h2 h4
      resource_uri_with_package_id [OF h1 h2 h3 h4, where s = state0
        and w = "world_of [(''ckanext.dcat.base_uri'', ''http://cat.org'')]"]
    by (simp add: world_of_def dict_get_def state0_def catalog_uri_def rstrip_def)
qed

text \<open>
  Claim C9. For a resource record with no usable \<open>uri\<close>, no usable \<open>package_id\<close>
  and an \<open>id\<close> for which the legacy lookup finds no persisted resource,
  \<open>dataset_id_from_resource\<close> returns \<open>None\<close> and \<open>resource_uri\<close> neither raises nor
  returns \<open>None\<close>: it returns the string whose dataset segment is the rendering
  \<open>None\<close> of the absent value, that is the catalog prefix followed by
  \<open>/dataset/None/resource/\<close> and the \<open>id\<close>.
\<close>

theorem resource_uri_absent_dataset_id:
  "falsy (dict_get r ''uri'') \<Longrightarrow> falsy (dict_get r ''package_id'') \<Longrightarrow>
   dict_get r ''id'' = Some i \<Longrightarrow> Resource_get w i = None \<Longrightarrow>
   dataset_id_from_resource w r = Inr None
   \<and> resource_uri w r s =
       (Inr (Some (rstrip CHR ''/'' (fst (catalog_uri w s)) @ ''/dataset/None/resource/'' @ i)),
        snd (catalog_uri w s))"
  by (simp add: resource_uri_def dataset_id_from_resource_def Let_def dict_get_def getitem_def
        split: prod.splits)

theorem resource_uri_absent_dataset_id_witness:
  "falsy (dict_get [(''id'', ''r1'')] ''uri'')
   \<and> falsy (dict_get [(''id'', ''r1'')] ''package_id'')
   \<and> dict_get [(''id'', ''r1'')] ''id'' = Some ''r1''
   \<and> Resource_get (world_of [(''ckanext.dcat.base_uri'', ''http://cat.org'')]) ''r1'' = None
   \<and> resource_uri (world_of [(''ckanext.dcat.base_uri'', ''http://cat.org'')])
        [(''id'', ''r1'')] state0
       = (Inr (Some ''http://cat.org/dataset/None/resource/r1''), state0)"
proof -
  have h1: "falsy (dict_get [(''id'', ''r1'')] ''uri'')"
    by (simp add: dict_get_def)
  have h2: "falsy (dict_get [(''id'', ''r1'')] ''package_id'')"
    by (simp add: dict_get_def)
  have h3: "dict_get [(''id'', ''r1'')] ''id'' = Some ''r1''"
    by (simp add: dict_get_def)
  have h4: "Resource_get (world_of [(''ckanext.dcat.base_uri'', ''http://cat.org'')]) ''r1''
              = None"
    by (simp add: world_of_def no_resource_def)
  show ?thesis
    using h1 h2 h3 h4
      resource_uri_absent_dataset_id [OF h1 h2 h3 h4, where s = state0]
    by (simp add: world_of_def dict_get_def state0_def catalog_uri_def rstrip_def)
qed

text \<open>
  Claim C3, as amended. \<open>resource_uri\<close> raises \<open>KeyError\<close> for \<open>id\<close> exactly when
  the record has no usable \<open>uri\<close> field and no \<open>id\<close> key, whether or not it has a
  \<open>package_id\<close>; the error is the result of the call (nothing catches it). In
  every other case a string is returned.
\<close>

theorem resource_uri_fails_iff:
  "(isl (fst (resource_uri w r s))
      \<longleftrightarrow> falsy (dict_get r ''uri'') \<and> dict_get r ''id'' = None)
   \<and> (falsy (dict_get r ''uri'') \<and> dict_get r ''id'' = None
      \<longrightarrow> fst (resource_uri w r s) = Inl (KeyError ''id''))
   \<and> (\<not> (falsy (dict_get r ''uri'') \<and> dict_get r ''id'' = None)
      \<longrightarrow> (\<exists>u. fst (resource_uri w r s) = Inr (Some u)))"
  by (auto simp: resource_uri_def dataset_id_from_resource_def Let_def dict_get_def getitem_def
        falsy_iff split: prod.splits option.splits)

theorem resource_uri_fails_iff_witness:
  "fst (resource_uri (world_of [(''ckanext.dcat.base_uri'', ''http://cat.org'')])
          [(''package_id'', ''d1'')] state0) = Inl (KeyError ''id'')
   \<and> fst (resource_uri (world_of [(''ckanext.dcat.base_uri'', ''http://cat.org'')])
          [] state0) = Inl (KeyError ''id'')
   \<and> (\<exists>u. fst (resource_uri (world_of [(''ckanext.dcat.base_uri'', ''http://cat.org'')])
          [(''id'', ''r1'')] state0) = Inr (Some u))
   \<and> (\<exists>u. fst (resource_uri (world_of [(''ckanext.dcat.base_uri'', ''http://cat.org'')])
          [(''uri'', ''http://x/r'')] state0) = Inr (Some u))"
  using resource_uri_fails_iff [where r = "[(''package_id'', ''d1'')]" and s = state0
      and w = "world_of [(''ckanext.dcat.base_uri'', ''http://cat.org'')]"]
    resource_uri_fails_iff [where r = "[]" and s = state0
      and w = "world_of [(''ckanext.dcat.base_uri'', ''http://cat.org'')]"]
    resource_uri_fails_iff [where r = "[(''id'', ''r1'')]" and s = state0
      and w = "world_of [(''ckanext.dcat.base_uri'', ''http://cat.org'')]"]
    resource_uri_fails_iff [where r = "[(''uri'', ''http://x/r'')]" and s = state0
      and w = "world_of [(''ckanext.dcat.base_uri'', ''http://cat.org'')]"]
  by (simp add: dict_get_def)

text \<open>
  The condition of claim C3 as it was stated also asks for the \<open>package_id\<close> to
  be missing. The record that has only a \<open>package_id\<close> refutes it: the call
  raises, since the \<open>id\<close> is read again when the URI is formatted.
\<close>

theorem resource_uri_claimed_failure_condition_counterexample:
  "\<not> (isl (fst (resource_uri (world_of [(''ckanext.dcat.base_uri'', ''http://cat.org'')])
                 [(''package_id'', ''d1'')] state0))
       \<longleftrightarrow> (falsy (dict_get [(''package_id'', ''d1'')] ''uri'')
            \<and> falsy (dict_get [(''package_id'', ''d1'')] ''package_id'')
            \<and> dict_get [(''package_id'', ''d1'')] ''id'' = None))"
  by (simp add: resource_uri_def dataset_id_from_resource_def Let_def dict_get_def getitem_def
        split: prod.splits)

subsection \<open>Publisher URI\<close>

text \<open>
  Claim C4. The first step of \<open>publisher_uri_from_dataset_dict\<close> reads the key
  \<open>pubisher_uri\<close>. A record with a \<open>publisher_uri\<close> field but no \<open>pubisher_uri\<close>
  key, no extras entry with the key \<open>publisher_uri\<close> and no organization gives
  \<open>None\<close>; a record with a non-empty \<open>pubisher_uri\<close> field gives that value.
\<close>

theorem publisher_uri_misspelled_key:
  "(dict_get (str_fields d) ''publisher_uri'' = Some p
      \<and> dict_get (str_fields d) ''pubisher_uri'' = None
      \<and> (\<forall>e \<in> set (get_extras d). \<exists>k. dict_get e ''key'' = Some k \<and> k \<noteq> ''publisher_uri'')
      \<and> organization d = None
      \<longrightarrow> publisher_uri_from_dataset_dict w d s = (Inr None, s))
   \<and> (dict_get (str_fields d) ''pubisher_uri'' = Some q \<and> q \<noteq> []
      \<longrightarrow> publisher_uri_from_dataset_dict w d s = (Inr (Some q), s))"
  by (auto simp: publisher_uri_from_dataset_dict_def Let_def extras_loop_no_match
        split: option.splits)

theorem publisher_uri_misspelled_key_witness:
  "publisher_uri_from_dataset_dict (world_of [(''ckanext.dcat.base_uri'', ''http://cat.org'')])
      (fields_only [(''publisher_uri'', ''http://pub.org/1'')]) state0
     = (Inr None, state0)
   \<and> publisher_uri_from_dataset_dict (world_of [(''ckanext.dcat.base_uri'', ''http://cat.org'')])
      (fields_only [(''publisher_uri'', ''http://pub.org/1''),
                    (''pubisher_uri'', ''http://pub.org/2'')]) state0
     = (Inr (Some ''http://pub.org/2''), state0)"
  using publisher_uri_misspelled_key [where p = "''http://pub.org/1''" and s = state0
      and d = "fields_only [(''publisher_uri'', ''http://pub.org/1'')]"
      and w = "world_of [(''ckanext.dcat.base_uri'', ''http://cat.org'')]"]
    publisher_uri_misspelled_key [where q = "''http://pub.org/2''" and s = state0
      and d = "fields_only [(''publisher_uri'', ''http://pub.org/1''),
                            (''pubisher_uri'', ''http://pub.org/2'')]"
      and w = "world_of [(''ckanext.dcat.base_uri'', ''http://cat.org'')]"]
  by (simp add: fields_only_def dict_get_def get_extras_def)

text \<open>
  Claim C7. On a dataset record (each \<open>extras\<close> entry a key/value pair, an
  organization with an \<open>id\<close>) \<open>publisher_uri_from_dataset_dict\<close> does not raise: it
  returns a string or \<open>None\<close>. When the field read by the first step and the
  extras give nothing usable and there is an organization, the result is the
  catalog URI without trailing slashes followed by \<open>/organization/\<close> and the
  organization's \<open>id\<close>. When that field is missing, no extras entry has the key
  \<open>publisher_uri\<close> and there is no organization, the result is \<open>None\<close>.
\<close>

theorem publisher_uri_never_raises:
  assumes "dataset_record d"
  shows "(\<exists>v. fst (publisher_uri_from_dataset_dict w d s) = Inr v)
       \<and> (falsy (dict_get (str_fields d) ''pubisher_uri'')
            \<and> falsy (first_extra_value ''publisher_uri'' d)
            \<and> organization d = Some org \<and> dict_get org ''id'' = Some i
            \<longrightarrow> publisher_uri_from_dataset_dict w d s =
                  (Inr (Some (rstrip CHR ''/'' (fst (catalog_uri w s)) @ ''/organization/'' @ i)),
                   snd (catalog_uri w s)))
       \<and> (dict_get (str_fields d) ''pubisher_uri'' = None
            \<and> (\<forall>e \<in> set (get_extras d). dict_get e ''key'' \<noteq> Some ''publisher_uri'')
            \<and> organization d = None
            \<longrightarrow> publisher_uri_from_dataset_dict w d s = (Inr None, s))"
proof -
  let ?u = "dict_get (str_fields d) ''pubisher_uri''"
  let ?loop = "extras_loop ''publisher_uri'' (get_extras d) ?u"
  have pairs: "list_all (\<lambda>e. dict_get e ''key'' \<noteq> None \<and> dict_get e ''value'' \<noteq> None)
                 (get_extras d)"
    using assms by (simp add: dataset_record_def)
  have org_id: "organization d = Some org' \<Longrightarrow> \<exists>j. getitem org' ''id'' = Inr j" for org'
    using assms by (auto simp: dataset_record_def getitem_def dict_get_def)
  obtain v where v: "falsy ?u \<Longrightarrow> ?loop = Inr v"
    and vf: "falsy ?u \<Longrightarrow> falsy v \<longleftrightarrow> falsy (first_extra_value ''publisher_uri'' d)"
    using extras_loop_first [OF assms, of ?u "''publisher_uri''"] by (cases "falsy ?u") auto
  have c1: "\<exists>v. fst (publisher_uri_from_dataset_dict w d s) = Inr v"
  proof (cases "organization d")
    case None
    then show ?thesis
      using v by (cases "falsy ?u") (simp_all add: publisher_uri_from_dataset_dict_def Let_def)
  next
    case (Some org')
    then show ?thesis
      using v org_id [OF Some]
      by (cases "falsy ?u")
         (auto simp: publisher_uri_from_dataset_dict_def Let_def split: prod.splits)
  qed
  have c2: "falsy ?u \<Longrightarrow> falsy (first_extra_value ''publisher_uri'' d)
      \<Longrightarrow> organization d = Some org \<Longrightarrow> dict_get org ''id'' = Some i
      \<Longrightarrow> publisher_uri_from_dataset_dict w d s =
            (Inr (Some (rstrip CHR ''/'' (fst (catalog_uri w s)) @ ''/organization/'' @ i)),
             snd (catalog_uri w s))"
    using v vf
    by (auto simp: publisher_uri_from_dataset_dict_def Let_def getitem_def dict_get_def
          split: prod.splits)
  have c3: "?u = None
      \<Longrightarrow> \<forall>e \<in> set (get_extras d). dict_get e ''key'' \<noteq> Some ''publisher_uri''
      \<Longrightarrow> organization d = None
      \<Longrightarrow> publisher_uri_from_dataset_dict w d s = (Inr None, s)"
  proof -
    assume u: "?u = None"
      and nokey: "\<forall>e \<in> set (get_extras d). dict_get e ''key'' \<noteq> Some ''publisher_uri''"
      and noorg: "organization d = None"
    have "find (\<lambda>e. dict_get e ''key'' = Some ''publisher_uri'') (get_extras d) = None"
      using nokey by (simp add: find_None_iff)
    then have "?loop = Inr None"
      using u extras_loop_pairs [OF pairs, of "''publisher_uri''" ?u] by simp
    then show ?thesis
      using u noorg by (simp add: publisher_uri_from_dataset_dict_def Let_def)
  qed
  from c1 c2 c3 show ?thesis by blast
qed

theorem publisher_uri_never_raises_witness:
  "dataset_record (org_only [(''id'', ''org1'')])
   \<and> publisher_uri_from_dataset_dict (world_of [(''ckanext.dcat.base_uri'', ''http://cat.org'')])
        (org_only [(''id'', ''org1'')]) state0
       = (Inr (Some ''http://cat.org/organization/org1''), state0)
   \<and> dataset_record (fields_only [])
   \<and> publisher_uri_from_dataset_dict (world_of [(''ckanext.dcat.base_uri'', ''http://cat.org'')])
        (fields_only []) state0
       = (Inr None, state0)"
proof -
  have r1: "dataset_record (org_only [(''id'', ''org1'')])"
    by (simp add: dataset_record_def org_only_def get_extras_def dict_get_def)
  have r2: "dataset_record (fields_only [])"
    by (simp add: dataset_record_def fields_only_def get_extras_def)
  show ?thesis
    using r1 r2
      publisher_uri_never_raises [OF r1, where org = "[(''id'', ''org1'')]" and i = "''org1''"
        and s = state0 and w = "world_of [(''ckanext.dcat.base_uri'', ''http://cat.org'')]"]
      publisher_uri_never_raises [OF r2, where s = state0
        and w = "world_of [(''ckanext.dcat.base_uri'', ''http://cat.org'')]"]
    by (simp add: org_only_def fields_only_def first_extra_value_def get_extras_def
          dict_get_def world_of_def state0_def catalog_uri_def rstrip_def)
qed

subsection \<open>Format-name translators\<close>

text \<open>
  Claim C8. Both translators are total functions from strings to strings with no
  failing branch. The forward map sends \<open>ttl\<close> to \<open>turtle\<close>, \<open>rdf\<close> and \<open>xml\<close> to
  \<open>pretty-xml\<close>, \<open>jsonld\<close> to \<open>json-ld\<close> and every other string to itself; the
  reverse map sends \<open>turtle\<close> to \<open>ttl\<close>, \<open>pretty-xml\<close> to \<open>xml\<close>, \<open>json-ld\<close> to
  \<open>jsonld\<close> and every other string to itself.
\<close>

theorem format_translators_total:
  "url_to_rdflib_format ''ttl'' = ''turtle''
   \<and> url_to_rdflib_format ''rdf'' = ''pretty-xml''
   \<and> url_to_rdflib_format ''xml'' = ''pretty-xml''
   \<and> url_to_rdflib_format ''jsonld'' = ''json-ld''
   \<and> (f \<notin> {''ttl'', ''rdf'', ''xml'', ''jsonld''} \<longrightarrow> url_to_rdflib_format f = f)
   \<and> rdflib_to_url_format ''turtle'' = ''ttl''
   \<and> rdflib_to_url_format ''pretty-xml'' = ''xml''
   \<and> rdflib_to_url_format ''json-ld'' = ''jsonld''
   \<and> (g \<notin> {''turtle'', ''pretty-xml'', ''json-ld''} \<longrightarrow> rdflib_to_url_format g = g)"
  by (simp add: url_to_rdflib_format_def rdflib_to_url_format_def)

theorem format_translators_total_witness:
  "''n3'' \<notin> {''ttl'', ''rdf'', ''xml'', ''jsonld''} \<and> url_to_rdflib_format ''n3'' = ''n3''
   \<and> ''application/rdf+xml'' \<notin> {''turtle'', ''pretty-xml'', ''json-ld''}
   \<and> rdflib_to_url_format ''application/rdf+xml'' = ''application/rdf+xml''"
  using format_translators_total [of "''n3''" "''application/rdf+xml''"] by simp

text \<open>
  Claim C5. Translating an endpoint token to the rdflib name and back gives the
  token again for \<open>ttl\<close>, \<open>jsonld\<close> and the pass-through token \<open>n3\<close>; in general
  the round trip is the identity exactly for the strings other than \<open>rdf\<close> and
  the three rdflib names, and among the endpoint tokens of \<open>CONTENT_TYPES\<close> exactly
  for those other than \<open>rdf\<close>. Both \<open>rdf\<close> and \<open>xml\<close> map to \<open>pretty-xml\<close>, whose
  return trip is \<open>xml\<close>, so \<open>rdf\<close> does not round-trip.
\<close>

theorem format_round_trip:
  "rdflib_to_url_format (url_to_rdflib_format ''ttl'') = ''ttl''
   \<and> rdflib_to_url_format (url_to_rdflib_format ''jsonld'') = ''jsonld''
   \<and> rdflib_to_url_format (url_to_rdflib_format ''n3'') = ''n3''
   \<and> (rdflib_to_url_format (url_to_rdflib_format f) = f
        \<longleftrightarrow> f \<notin> {''rdf'', ''turtle'', ''pretty-xml'', ''json-ld''})
   \<and> (\<forall>t \<in> set (map fst CONTENT_TYPES).
         rdflib_to_url_format (url_to_rdflib_format t) = t \<longleftrightarrow> t \<noteq> ''rdf'')
   \<and> url_to_rdflib_format ''rdf'' = ''pretty-xml''
   \<and> url_to_rdflib_format ''xml'' = ''pretty-xml''
   \<and> rdflib_to_url_format ''pretty-xml'' = ''xml''
   \<and> rdflib_to_url_format (url_to_rdflib_format ''rdf'') = ''xml''
   \<and> rdflib_to_url_format (url_to_rdflib_format ''xml'') = ''xml''
   \<and> rdflib_to_url_format (url_to_rdflib_format ''rdf'') \<noteq> ''rdf''"
  by (simp add: url_to_rdflib_format_def rdflib_to_url_format_def CONTENT_TYPES_def)

theorem format_round_trip_witness:
  "''n3'' \<in> set (map fst CONTENT_TYPES)
   \<and> ''n3'' \<notin> {''rdf'', ''turtle'', ''pretty-xml'', ''json-ld''}
   \<and> rdflib_to_url_format (url_to_rdflib_format ''n3'') = ''n3''"
  using format_round_trip [of "''n3''"] by (simp add: CONTENT_TYPES_def)

end
